theory Spec2Isabelle
  imports Complex_Main "HOL-Library.Word" "HOL-Library.AList"
begin

section \<open>The e-Paper addon: a Node-API binding over the vendor driver\<close>

text \<open>
  The development embeds \<^verbatim>\<open>src/addon.cpp\<close>: the callbacks \<^verbatim>\<open>Init\<close>, \<^verbatim>\<open>Clear\<close>,
  \<^verbatim>\<open>Show7Block\<close>, \<^verbatim>\<open>Show\<close>, \<^verbatim>\<open>Display\<close>, \<^verbatim>\<open>Sleep\<close>, \<^verbatim>\<open>Exit\<close>, \<^verbatim>\<open>GetWidth\<close>,
  \<^verbatim>\<open>GetHeight\<close>, \<^verbatim>\<open>GetBufferSize\<close>, and the module set-up \<^verbatim>\<open>CreateColorConstants\<close> and
  \<^verbatim>\<open>InitAll\<close>. The vendor driver is external: a call into it is recorded in a log of
  driver calls, in the order the callbacks make them.
\<close>

subsection \<open>JavaScript values\<close>

text \<open>
  A JavaScript number is an IEEE double: not-a-number, an infinity, or a finite value.
  Every finite double is a rational, so the finite numbers are embedded in \<^typ>\<open>rat\<close>
  (the two zeroes are not told apart; no callback tells them apart either).
\<close>

datatype js_number = NaN | PosInfinity | NegInfinity | Finite rat

text \<open>The callbacks the module exports, as the values of the exported functions.\<close>

datatype native_function =
    Fn_Init | Fn_Clear | Fn_Show7Block | Fn_Show | Fn_Display | Fn_Sleep | Fn_Exit
  | Fn_GetWidth | Fn_GetHeight | Fn_GetBufferSize

text \<open>
  An object is the list of its properties in insertion order; a buffer is its bytes.
\<close>

datatype js_value =
    JSUndefined
  | JSNull
  | JSBoolean bool
  | JSNumber js_number
  | JSString string
  | JSBuffer "8 word list"
  | JSFunction native_function
  | JSObject "(string \<times> js_value) list"

type_synonym js_object = "(string \<times> js_value) list"

text \<open>\<^verbatim>\<open>Napi::Error\<close> and \<^verbatim>\<open>Napi::TypeError\<close>, each with its message.\<close>

datatype js_exception = JSError string | JSTypeError string

subsection \<open>The vendor driver and the environment of a callback\<close>

datatype driver_call =
    Call_DEV_Module_Init
  | Call_DEV_Module_Exit
  | Call_EPD_7IN3E_Init
  | Call_EPD_7IN3E_Clear "8 word"
  | Call_EPD_7IN3E_Show7Block
  | Call_EPD_7IN3E_Show
  | Call_EPD_7IN3E_Display "8 word list"
  | Call_EPD_7IN3E_Sleep

text \<open>
  \<^verbatim>\<open>Napi::Env\<close> holds the exception a callback has thrown with
  \<^verbatim>\<open>ThrowAsJavaScriptException\<close>, pending until the callback returns; the environment of
  the model carries the log of driver calls beside it.
\<close>

record napi_env =
  pending_exception :: "js_exception option"
  driver_log :: "driver_call list"

type_synonym callback = "js_value list \<Rightarrow> napi_env \<Rightarrow> js_value \<times> napi_env"

definition ThrowAsJavaScriptException :: "js_exception \<Rightarrow> napi_env \<Rightarrow> napi_env" where
  "ThrowAsJavaScriptException e env = env\<lparr>pending_exception := Some e\<rparr>"

definition driver :: "driver_call \<Rightarrow> napi_env \<Rightarrow> napi_env" where
  "driver d env = env\<lparr>driver_log := driver_log env @ [d]\<rparr>"

text \<open>
  \<^verbatim>\<open>DEV_Module_Init\<close> returns the status of the hardware, which the model takes as a
  parameter: the status the hardware reports at this call.
\<close>

definition DEV_Module_Init :: "int \<Rightarrow> napi_env \<Rightarrow> int \<times> napi_env" where
  "DEV_Module_Init status env = (status, driver Call_DEV_Module_Init env)"

definition DEV_Module_Exit :: "napi_env \<Rightarrow> napi_env" where
  "DEV_Module_Exit = driver Call_DEV_Module_Exit"

definition EPD_7IN3E_Init :: "napi_env \<Rightarrow> napi_env" where
  "EPD_7IN3E_Init = driver Call_EPD_7IN3E_Init"

definition EPD_7IN3E_Clear :: "8 word \<Rightarrow> napi_env \<Rightarrow> napi_env" where
  "EPD_7IN3E_Clear color = driver (Call_EPD_7IN3E_Clear color)"

definition EPD_7IN3E_Show7Block :: "napi_env \<Rightarrow> napi_env" where
  "EPD_7IN3E_Show7Block = driver Call_EPD_7IN3E_Show7Block"

definition EPD_7IN3E_Show :: "napi_env \<Rightarrow> napi_env" where
  "EPD_7IN3E_Show = driver Call_EPD_7IN3E_Show"

definition EPD_7IN3E_Display :: "8 word list \<Rightarrow> napi_env \<Rightarrow> napi_env" where
  "EPD_7IN3E_Display bytes = driver (Call_EPD_7IN3E_Display bytes)"

definition EPD_7IN3E_Sleep :: "napi_env \<Rightarrow> napi_env" where
  "EPD_7IN3E_Sleep = driver Call_EPD_7IN3E_Sleep"

text \<open>
  The call boundary: JavaScript calls a callback with no exception pending; when the
  callback returns, a pending exception is thrown to the caller (\<open>Inl\<close>) and the returned
  value is dropped, otherwise the caller receives the value (\<open>Inr\<close>). The second component
  is the log of driver calls after the call.
\<close>

definition js_call ::
  "callback \<Rightarrow> js_value list \<Rightarrow> driver_call list \<Rightarrow> (js_exception + js_value) \<times> driver_call list"
where
  "js_call f info calls =
     (let (v, env) = f info \<lparr>pending_exception = None, driver_log = calls\<rparr>
      in (case pending_exception env of Some e \<Rightarrow> Inl e | None \<Rightarrow> Inr v,
          driver_log env))"

subsection \<open>The Node-API operations the callbacks use\<close>

text \<open>\<^verbatim>\<open>info[i]\<close>: the argument, or \<^verbatim>\<open>undefined\<close> past the last one.\<close>

definition info_at :: "js_value list \<Rightarrow> nat \<Rightarrow> js_value" where
  "info_at info i = (if i < length info then info ! i else JSUndefined)"

fun IsNumber :: "js_value \<Rightarrow> bool" where
  "IsNumber (JSNumber n) = True"
| "IsNumber v = False"

fun IsBuffer :: "js_value \<Rightarrow> bool" where
  "IsBuffer (JSBuffer bs) = True"
| "IsBuffer v = False"

text \<open>
  The conversion of a number to \<^verbatim>\<open>uint32_t\<close> (\<^verbatim>\<open>napi_get_value_uint32\<close>, which is
  ECMAScript's ToUint32): a value that is not finite gives 0, a finite one is truncated
  towards zero and reduced modulo \<open>2 ^ 32\<close>.
\<close>

definition truncate_towards_zero :: "rat \<Rightarrow> int" where
  "truncate_towards_zero q = (if q < 0 then - \<lfloor>- q\<rfloor> else \<lfloor>q\<rfloor>)"

fun ToUint32 :: "js_number \<Rightarrow> 32 word" where
  "ToUint32 (Finite q) = word_of_int (truncate_towards_zero q)"
| "ToUint32 n = 0"

text \<open>
  \<^verbatim>\<open>As<Napi::Number>().Uint32Value()\<close>. The callbacks reach it after \<^verbatim>\<open>IsNumber\<close> only;
  on another value Node-API reports \<^verbatim>\<open>napi_number_expected\<close> and stores no result,
  which the model renders as 0.
\<close>

fun Uint32Value :: "js_value \<Rightarrow> 32 word" where
  "Uint32Value (JSNumber n) = ToUint32 n"
| "Uint32Value v = 0"

text \<open>\<^verbatim>\<open>As<Napi::Buffer<uint8_t>>()\<close>, reached after \<^verbatim>\<open>IsBuffer\<close> only.\<close>

fun As_Buffer :: "js_value \<Rightarrow> 8 word list" where
  "As_Buffer (JSBuffer bs) = bs"
| "As_Buffer v = []"

text \<open>\<^verbatim>\<open>Napi::Number::New(env, x)\<close> for an integer \<open>x\<close>, which a double holds exactly.\<close>

definition Number_New :: "int \<Rightarrow> js_value" where
  "Number_New x = JSNumber (Finite (of_int x))"

text \<open>
  \<^verbatim>\<open>Object::Set\<close>: a new property goes last, an existing one is overwritten in place.
\<close>

definition Object_Set :: "string \<Rightarrow> js_value \<Rightarrow> js_object \<Rightarrow> js_object" where
  "Object_Set key v obj = AList.update key v obj"

definition Object_Get :: "js_object \<Rightarrow> string \<Rightarrow> js_value option" where
  "Object_Get obj key = map_of obj key"

subsection \<open>C arithmetic and strings\<close>

text \<open>Division and remainder of C's \<^verbatim>\<open>int\<close>: the quotient is truncated towards zero.\<close>

definition c_div :: "int \<Rightarrow> int \<Rightarrow> int" where
  "c_div a b = sgn a * sgn b * (\<bar>a\<bar> div \<bar>b\<bar>)"

definition c_mod :: "int \<Rightarrow> int \<Rightarrow> int" where
  "c_mod a b = a - c_div a b * b"

text \<open>\<^verbatim>\<open>std::to_string\<close> of an unsigned value: its decimal digits.\<close>

definition digit_char :: "nat \<Rightarrow> char" where
  "digit_char d = char_of (48 + d)"

fun to_string :: "nat \<Rightarrow> string" where
  "to_string n = (if n < 10 then [digit_char n] else to_string (n div 10) @ [digit_char (n mod 10)])"

declare to_string.simps [simp del]

subsection \<open>The macros of the vendor header\<close>

text \<open>
  The vendor header \<^verbatim>\<open>EPD_7in3e.h\<close> is not among the sources. Its macros (the width
  and the height of the panel, the integer codes of the palette) are a parameter of the
  callbacks that read them: one field for each macro, an integer constant of C.
\<close>

record epd_consts =
  EPD_7IN3E_WIDTH :: int
  EPD_7IN3E_HEIGHT :: int
  EPD_7IN3E_BLACK :: int
  EPD_7IN3E_WHITE :: int
  EPD_7IN3E_YELLOW :: int
  EPD_7IN3E_RED :: int
  EPD_7IN3E_BLUE :: int
  EPD_7IN3E_GREEN :: int

subsection \<open>The callbacks\<close>

definition Init :: "int \<Rightarrow> callback" where
  "Init status info env =
     (let (r, env) = DEV_Module_Init status env in
      if r \<noteq> 0 then
        (JSNull, ThrowAsJavaScriptException (JSError ''Failed to initialize e-Paper module'') env)
      else
        (JSNull, EPD_7IN3E_Init env))"

definition Clear :: callback where
  "Clear info env =
     (if length info < 1 then
        (JSNull, ThrowAsJavaScriptException (JSTypeError ''Wrong number of arguments'') env)
      else if \<not> IsNumber (info_at info 0) then
        (JSNull, ThrowAsJavaScriptException (JSTypeError ''Expected number'') env)
      else
        (let color = (ucast (Uint32Value (info_at info 0)) :: 8 word)
         in (JSNull, EPD_7IN3E_Clear color env)))"

definition Show7Block :: callback where
  "Show7Block info env = (JSNull, EPD_7IN3E_Show7Block env)"

definition Show :: callback where
  "Show info env = (JSNull, EPD_7IN3E_Show env)"

definition Display :: "epd_consts \<Rightarrow> callback" where
  "Display c info env =
     (if length info < 1 then
        (JSNull, ThrowAsJavaScriptException (JSTypeError ''Wrong number of arguments'') env)
      else if \<not> IsBuffer (info_at info 0) then
        (JSNull, ThrowAsJavaScriptException (JSTypeError ''Expected buffer'') env)
      else
        (let buffer = As_Buffer (info_at info 0);
             width = (word_of_int
                        (if c_mod (EPD_7IN3E_WIDTH c) 2 = 0 then c_div (EPD_7IN3E_WIDTH c) 2
                         else c_div (EPD_7IN3E_WIDTH c) 2 + 1) :: 32 word);
             height = (word_of_int (EPD_7IN3E_HEIGHT c) :: 32 word);
             expected_size = width * height
         in if length buffer \<noteq> unat expected_size then
              (JSNull,
               ThrowAsJavaScriptException
                 (JSError (''Buffer size mismatch. Expected '' @ to_string (unat expected_size)
                           @ '' bytes'')) env)
            else
              (JSNull, EPD_7IN3E_Display buffer env)))"

definition Sleep :: callback where
  "Sleep info env = (JSNull, EPD_7IN3E_Sleep env)"

definition Exit :: callback where
  "Exit info env = (JSNull, DEV_Module_Exit env)"

definition GetWidth :: "epd_consts \<Rightarrow> callback" where
  "GetWidth c info env = (Number_New (EPD_7IN3E_WIDTH c), env)"

definition GetHeight :: "epd_consts \<Rightarrow> callback" where
  "GetHeight c info env = (Number_New (EPD_7IN3E_HEIGHT c), env)"

definition GetBufferSize :: "epd_consts \<Rightarrow> callback" where
  "GetBufferSize c info env =
     (let width = (word_of_int
                     (if c_mod (EPD_7IN3E_WIDTH c) 2 = 0 then c_div (EPD_7IN3E_WIDTH c) 2
                      else c_div (EPD_7IN3E_WIDTH c) 2 + 1) :: 32 word);
          height = (word_of_int (EPD_7IN3E_HEIGHT c) :: 32 word)
      in (Number_New (uint (width * height)), env))"

subsection \<open>The module set-up\<close>

definition CreateColorConstants :: "epd_consts \<Rightarrow> js_object" where
  "CreateColorConstants c =
     (let colors = [];
          colors = Object_Set ''BLACK'' (Number_New (EPD_7IN3E_BLACK c)) colors;
          colors = Object_Set ''WHITE'' (Number_New (EPD_7IN3E_WHITE c)) colors;
          colors = Object_Set ''YELLOW'' (Number_New (EPD_7IN3E_YELLOW c)) colors;
          colors = Object_Set ''RED'' (Number_New (EPD_7IN3E_RED c)) colors;
          colors = Object_Set ''BLUE'' (Number_New (EPD_7IN3E_BLUE c)) colors;
          colors = Object_Set ''GREEN'' (Number_New (EPD_7IN3E_GREEN c)) colors
      in colors)"

definition InitAll :: "epd_consts \<Rightarrow> js_object \<Rightarrow> js_object" where
  "InitAll c exports =
     (let exports = Object_Set ''init'' (JSFunction Fn_Init) exports;
          exports = Object_Set ''clear'' (JSFunction Fn_Clear) exports;
          exports = Object_Set ''show7Block'' (JSFunction Fn_Show7Block) exports;
          exports = Object_Set ''show'' (JSFunction Fn_Show) exports;
          exports = Object_Set ''display'' (JSFunction Fn_Display) exports;
          exports = Object_Set ''sleep'' (JSFunction Fn_Sleep) exports;
          exports = Object_Set ''exit'' (JSFunction Fn_Exit) exports;
          exports = Object_Set ''getWidth'' (JSFunction Fn_GetWidth) exports;
          exports = Object_Set ''getHeight'' (JSFunction Fn_GetHeight) exports;
          exports = Object_Set ''getBufferSize'' (JSFunction Fn_GetBufferSize) exports;
          exports = Object_Set ''Colors'' (JSObject (CreateColorConstants c)) exports
      in exports)"

text \<open>The callback behind each exported function, for the status the hardware reports.\<close>

fun native_callback :: "epd_consts \<Rightarrow> int \<Rightarrow> native_function \<Rightarrow> callback" where
  "native_callback c status Fn_Init = Init status"
| "native_callback c status Fn_Clear = Clear"
| "native_callback c status Fn_Show7Block = Show7Block"
| "native_callback c status Fn_Show = Show"
| "native_callback c status Fn_Display = Display c"
| "native_callback c status Fn_Sleep = Sleep"
| "native_callback c status Fn_Exit = Exit"
| "native_callback c status Fn_GetWidth = GetWidth c"
| "native_callback c status Fn_GetHeight = GetHeight c"
| "native_callback c status Fn_GetBufferSize = GetBufferSize c"

text \<open>
  A run of the process: JavaScript calls exported functions one after the other, each
  with its arguments and with the status the hardware would report to it; the result is
  the log of driver calls at the end.
\<close>

fun run_calls ::
  "epd_consts \<Rightarrow> (native_function \<times> int \<times> js_value list) list \<Rightarrow> driver_call list
     \<Rightarrow> driver_call list"
where
  "run_calls c [] calls = calls"
| "run_calls c ((f, status, info) # ops) calls =
     run_calls c ops (snd (js_call (native_callback c status f) info calls))"

subsection \<open>The words of the specification\<close>

text \<open>The size the specification names: \<^verbatim>\<open>ceil(width/2) * height\<close>.\<close>

definition ceil_half_width_times_height :: "epd_consts \<Rightarrow> int" where
  "ceil_half_width_times_height c =
     \<lceil>rat_of_int (EPD_7IN3E_WIDTH c) / 2\<rceil> * EPD_7IN3E_HEIGHT c"

text \<open>A number in the range of a single byte, from 0 to 255.\<close>

fun in_byte_range :: "js_number \<Rightarrow> bool" where
  "in_byte_range (Finite q) = (0 \<le> q \<and> q \<le> 255)"
| "in_byte_range n = False"

subsection \<open>Sample headers\<close>

text \<open>
  Two samples of the header's macros, on which the model is run: a panel of 800 by 480
  pixels, and one of 7 by 3 pixels, whose odd width does not halve evenly.
\<close>

definition panel_800x480 :: epd_consts where
  "panel_800x480 =
     \<lparr>EPD_7IN3E_WIDTH = 800, EPD_7IN3E_HEIGHT = 480, EPD_7IN3E_BLACK = 0, EPD_7IN3E_WHITE = 1,
      EPD_7IN3E_YELLOW = 2, EPD_7IN3E_RED = 3, EPD_7IN3E_BLUE = 5, EPD_7IN3E_GREEN = 6\<rparr>"

definition panel_7x3 :: epd_consts where
  "panel_7x3 = panel_800x480\<lparr>EPD_7IN3E_WIDTH := 7, EPD_7IN3E_HEIGHT := 3\<rparr>"

section \<open>Auxiliary facts\<close>

lemmas driver_defs = driver_def DEV_Module_Init_def DEV_Module_Exit_def EPD_7IN3E_Init_def
  EPD_7IN3E_Clear_def EPD_7IN3E_Show7Block_def EPD_7IN3E_Show_def EPD_7IN3E_Display_def
  EPD_7IN3E_Sleep_def ThrowAsJavaScriptException_def

subsection \<open>What each callback does at the call boundary\<close>

lemma Clear_non_number:
  "\<not> IsNumber v \<Longrightarrow>
     js_call Clear (v # rest) calls = (Inl (JSTypeError ''Expected number''), calls)"
  by (simp add: js_call_def Clear_def driver_defs info_at_def)

lemma Clear_number:
  "js_call Clear (JSNumber n # rest) calls =
     (Inr JSNull, calls @ [Call_EPD_7IN3E_Clear (ucast (ToUint32 n))])"
  by (simp add: js_call_def Clear_def driver_defs info_at_def)

lemma Init_call:
  "js_call (Init status) info calls =
     (if status \<noteq> 0
      then (Inl (JSError ''Failed to initialize e-Paper module''), calls @ [Call_DEV_Module_Init])
      else (Inr JSNull, calls @ [Call_DEV_Module_Init, Call_EPD_7IN3E_Init]))"
  by (simp add: js_call_def Init_def driver_defs)

lemma Display_buffer_unfolded:
  "js_call (Display c) (JSBuffer bs # rest) calls =
     (let n = unat ((word_of_int
                 (if c_mod (EPD_7IN3E_WIDTH c) 2 = 0 then c_div (EPD_7IN3E_WIDTH c) 2
                  else c_div (EPD_7IN3E_WIDTH c) 2 + 1) :: 32 word)
               * word_of_int (EPD_7IN3E_HEIGHT c))
      in if length bs \<noteq> n
         then (Inl (JSError (''Buffer size mismatch. Expected '' @ to_string n @ '' bytes'')), calls)
         else (Inr JSNull, calls @ [Call_EPD_7IN3E_Display bs]))"
  by (simp add: js_call_def Display_def driver_defs info_at_def Let_def)

lemma GetBufferSize_unfolded:
  "js_call (GetBufferSize c) info calls =
     (Inr (Number_New (uint ((word_of_int
                 (if c_mod (EPD_7IN3E_WIDTH c) 2 = 0 then c_div (EPD_7IN3E_WIDTH c) 2
                  else c_div (EPD_7IN3E_WIDTH c) 2 + 1) :: 32 word)
               * word_of_int (EPD_7IN3E_HEIGHT c)))), calls)"
  by (simp add: js_call_def GetBufferSize_def Let_def)

lemma GetWidth_call:
  "js_call (GetWidth c) info calls = (Inr (Number_New (EPD_7IN3E_WIDTH c)), calls)"
  by (simp add: js_call_def GetWidth_def)

lemma GetHeight_call:
  "js_call (GetHeight c) info calls = (Inr (Number_New (EPD_7IN3E_HEIGHT c)), calls)"
  by (simp add: js_call_def GetHeight_def)

lemma Number_New_eq_iff: "Number_New a = Number_New b \<longleftrightarrow> a = b"
  by (simp add: Number_New_def)

subsection \<open>Narrowing to a byte\<close>

lemma unat_low_byte: "unat (ucast (w :: 32 word) :: 8 word) = unat w mod 256"
  by (simp add: unsigned_ucast_eq take_bit_eq_mod)

lemma low_byte_of_int: "(ucast (word_of_int k :: 32 word) :: 8 word) = word_of_int k"
  by (simp add: ucast_eq uint_word_of_int_eq word_of_int_eq_iff)

lemma byte_of_floor:
  assumes "0 \<le> q" and "q \<le> 255"
  shows "uint (word_of_int \<lfloor>q\<rfloor> :: 8 word) = \<lfloor>q\<rfloor>"
proof -
  have "0 \<le> \<lfloor>q\<rfloor>" using assms(1) by simp
  moreover have "\<lfloor>q\<rfloor> < 256" using assms(2) by (simp add: floor_less_iff)
  ultimately show ?thesis by (simp add: uint_word_of_int)
qed

subsection \<open>The expected size, computed in C\<close>

text \<open>
  For a width that is not negative, C's truncating division and remainder compute the
  ceiling of the half.
\<close>

lemma c_half_ceiling:
  assumes "0 \<le> w"
  shows "(if c_mod w 2 = 0 then c_div w 2 else c_div w 2 + 1) = \<lceil>rat_of_int w / 2\<rceil>"
proof -
  have d: "c_div w 2 = w div 2"
    using assms by (cases "w = 0") (simp_all add: c_div_def)
  have m: "c_mod w 2 = w mod 2"
    unfolding c_mod_def d by presburger
  have "\<lceil>rat_of_int w / of_int 2\<rceil> = - (- w div 2)"
    by (rule ceiling_divide_eq_div)
  then have c: "\<lceil>rat_of_int w / 2\<rceil> = - (- w div 2)" by simp
  show ?thesis unfolding d m c by presburger
qed

text \<open>The product in \<^verbatim>\<open>uint32_t\<close> is the exact one as long as it fits 32 bits.\<close>

lemma expected_size_exact:
  assumes "0 \<le> EPD_7IN3E_WIDTH c" and "0 \<le> EPD_7IN3E_HEIGHT c"
    and "ceil_half_width_times_height c < 2 ^ 32"
  shows "uint ((word_of_int
                 (if c_mod (EPD_7IN3E_WIDTH c) 2 = 0 then c_div (EPD_7IN3E_WIDTH c) 2
                  else c_div (EPD_7IN3E_WIDTH c) 2 + 1) :: 32 word)
               * word_of_int (EPD_7IN3E_HEIGHT c))
         = ceil_half_width_times_height c"
proof -
  let ?s = "ceil_half_width_times_height c"
  have nonneg: "0 \<le> ?s"
    using assms(1,2) by (simp add: ceil_half_width_times_height_def)
  have "(word_of_int
           (if c_mod (EPD_7IN3E_WIDTH c) 2 = 0 then c_div (EPD_7IN3E_WIDTH c) 2
            else c_div (EPD_7IN3E_WIDTH c) 2 + 1) :: 32 word)
         * word_of_int (EPD_7IN3E_HEIGHT c) = word_of_int ?s"
    unfolding c_half_ceiling [OF assms(1)] ceil_half_width_times_height_def by simp
  moreover have "uint (word_of_int ?s :: 32 word) = ?s"
    using nonneg assms(3) by (simp add: uint_word_of_int)
  ultimately show ?thesis by simp
qed

lemma Display_buffer_exact:
  assumes "0 \<le> EPD_7IN3E_WIDTH c" and "0 \<le> EPD_7IN3E_HEIGHT c"
    and "ceil_half_width_times_height c < 2 ^ 32"
  shows "js_call (Display c) (JSBuffer bs # rest) calls =
     (if int (length bs) = ceil_half_width_times_height c
      then (Inr JSNull, calls @ [Call_EPD_7IN3E_Display bs])
      else (Inl (JSError (''Buffer size mismatch. Expected ''
                          @ to_string (nat (ceil_half_width_times_height c)) @ '' bytes'')),
            calls))"
proof -
  have "0 \<le> ceil_half_width_times_height c"
    using assms(1,2) by (simp add: ceil_half_width_times_height_def)
  then show ?thesis
    unfolding Display_buffer_unfolded unat_eq_nat_uint expected_size_exact [OF assms]
    by (auto simp: Let_def)
qed

subsection \<open>The sample headers\<close>

lemma panel_7x3_size: "ceil_half_width_times_height panel_7x3 = 12"
  by (simp add: ceil_half_width_times_height_def panel_7x3_def panel_800x480_def
      ceiling_divide_eq_div [of 7 2, simplified])

lemma panel_800x480_size: "ceil_half_width_times_height panel_800x480 = 192000"
  by (simp add: ceil_half_width_times_height_def panel_800x480_def)

lemma to_string_12: "to_string 12 = ''12''"
  by code_simp

section \<open>The claims of the specification\<close>

subsection \<open>display\<close>

text \<open>
  Claim C1. For every call of \<^verbatim>\<open>display\<close> whose first argument is a buffer: when the
  length of the buffer differs from \<^verbatim>\<open>ceil(width/2) * height\<close>, the call fails with the
  error \<^verbatim>\<open>Buffer size mismatch. Expected N bytes\<close>, \<open>N\<close> the expected size in decimal,
  and the log of driver calls is as before the call; when the length equals it, the
  bytes of the buffer go to the driver's display routine and the call returns (the null
  value, no exception). The header's width and height are not negative and the size
  fits 32 bits.
\<close>

theorem Display_checks_buffer_size:
  assumes "0 \<le> EPD_7IN3E_WIDTH c" and "0 \<le> EPD_7IN3E_HEIGHT c"
    and "ceil_half_width_times_height c < 2 ^ 32"
  shows "js_call (Display c) (JSBuffer bs # rest) calls =
     (if int (length bs) = ceil_half_width_times_height c
      then (Inr JSNull, calls @ [Call_EPD_7IN3E_Display bs])
      else (Inl (JSError (''Buffer size mismatch. Expected ''
                          @ to_string (nat (ceil_half_width_times_height c)) @ '' bytes'')),
            calls))"
  using assms by (rule Display_buffer_exact)

theorem Display_checks_buffer_size_witness:
  "0 \<le> EPD_7IN3E_WIDTH panel_7x3 \<and> 0 \<le> EPD_7IN3E_HEIGHT panel_7x3
   \<and> ceil_half_width_times_height panel_7x3 < 2 ^ 32
   \<and> js_call (Display panel_7x3) [JSBuffer (replicate 12 0)] []
       = (Inr JSNull, [Call_EPD_7IN3E_Display (replicate 12 0)])
   \<and> js_call (Display panel_7x3) [JSBuffer [1, 2, 3]] []
       = (Inl (JSError ''Buffer size mismatch. Expected 12 bytes''), [])"
proof -
  have w: "0 \<le> EPD_7IN3E_WIDTH panel_7x3" and h: "0 \<le> EPD_7IN3E_HEIGHT panel_7x3"
    by (simp_all add: panel_7x3_def panel_800x480_def)
  have s: "ceil_half_width_times_height panel_7x3 < 2 ^ 32"
    by (simp add: panel_7x3_size)
  show ?thesis
    using w h s
      Display_checks_buffer_size [OF w h s, of "replicate 12 0" "[]" "[]"]
      Display_checks_buffer_size [OF w h s, of "[1, 2, 3]" "[]" "[]"]
    by (simp add: panel_7x3_size to_string_12)
qed

subsection \<open>init\<close>

text \<open>
  Claim C2. \<^verbatim>\<open>init\<close> fails if and only if \<^verbatim>\<open>DEV_Module_Init\<close> reports a status other
  than zero. The failure is the exception \<^verbatim>\<open>Failed to initialize e-Paper module\<close>,
  thrown to the caller; on status zero the panel initialisation follows the module
  initialisation and the call returns (the null value, no exception).
\<close>

theorem Init_fails_iff_status_nonzero:
  "isl (fst (js_call (Init status) info calls)) = (status \<noteq> 0)
   \<and> js_call (Init status) info calls =
       (if status \<noteq> 0
        then (Inl (JSError ''Failed to initialize e-Paper module''), calls @ [Call_DEV_Module_Init])
        else (Inr JSNull, calls @ [Call_DEV_Module_Init, Call_EPD_7IN3E_Init]))"
  by (simp add: Init_call)

theorem Init_fails_iff_status_nonzero_witness:
  "js_call (Init 1) [] []
     = (Inl (JSError ''Failed to initialize e-Paper module''), [Call_DEV_Module_Init])
   \<and> js_call (Init 0) [] [] = (Inr JSNull, [Call_DEV_Module_Init, Call_EPD_7IN3E_Init])"
  using Init_fails_iff_status_nonzero [of 1 "[]" "[]"]
    Init_fails_iff_status_nonzero [of 0 "[]" "[]"]
  by simp

text \<open>
  Claim C8. When \<^verbatim>\<open>init\<close> fails (the hardware status is not zero), the panel
  initialisation \<^verbatim>\<open>EPD_7IN3E_Init\<close> is not called: the only driver call of the failed
  \<^verbatim>\<open>init\<close> is \<^verbatim>\<open>DEV_Module_Init\<close>.
\<close>

theorem Init_failure_skips_panel_init:
  "status \<noteq> 0 \<Longrightarrow>
     snd (js_call (Init status) info calls) = calls @ [Call_DEV_Module_Init]
     \<and> Call_EPD_7IN3E_Init \<notin> set (drop (length calls) (snd (js_call (Init status) info calls)))"
  by (simp add: Init_call)

theorem Init_failure_skips_panel_init_witness:
  "(1::int) \<noteq> 0 \<and> snd (js_call (Init 1) [] []) = [Call_DEV_Module_Init]
   \<and> Call_EPD_7IN3E_Init \<notin> set (snd (js_call (Init 1) [] []))"
  using Init_failure_skips_panel_init [of 1 "[]" "[]"] by simp

subsection \<open>getWidth, getHeight, getBufferSize and Colors\<close>

text \<open>
  Claim C3. \<^verbatim>\<open>getBufferSize\<close> returns \<^verbatim>\<open>ceil(width/2) * height\<close>, for the width and the
  height that \<^verbatim>\<open>getWidth\<close> and \<^verbatim>\<open>getHeight\<close> return; and \<^verbatim>\<open>display\<close> accepts a buffer
  exactly when its length is the value of \<^verbatim>\<open>getBufferSize\<close>. The header's width and
  height are not negative and the size fits 32 bits.
\<close>

theorem GetBufferSize_is_ceil_half_width_times_height:
  assumes "0 \<le> EPD_7IN3E_WIDTH c" and "0 \<le> EPD_7IN3E_HEIGHT c"
    and "ceil_half_width_times_height c < 2 ^ 32"
  shows "(\<exists>w h. js_call (GetWidth c) info calls = (Inr (Number_New w), calls)
            \<and> js_call (GetHeight c) info calls = (Inr (Number_New h), calls)
            \<and> js_call (GetBufferSize c) info calls
                = (Inr (Number_New (\<lceil>rat_of_int w / 2\<rceil> * h)), calls))
         \<and> ((fst (js_call (Display c) (JSBuffer bs # rest) calls) = Inr JSNull)
              = (fst (js_call (GetBufferSize c) info calls) = Inr (Number_New (int (length bs)))))"
proof
  have "js_call (GetBufferSize c) info calls
          = (Inr (Number_New (\<lceil>rat_of_int (EPD_7IN3E_WIDTH c) / 2\<rceil> * EPD_7IN3E_HEIGHT c)), calls)"
    unfolding GetBufferSize_unfolded expected_size_exact [OF assms]
    by (simp add: ceil_half_width_times_height_def)
  then show "\<exists>w h. js_call (GetWidth c) info calls = (Inr (Number_New w), calls)
            \<and> js_call (GetHeight c) info calls = (Inr (Number_New h), calls)
            \<and> js_call (GetBufferSize c) info calls
                = (Inr (Number_New (\<lceil>rat_of_int w / 2\<rceil> * h)), calls)"
    using GetWidth_call GetHeight_call by blast
  show "(fst (js_call (Display c) (JSBuffer bs # rest) calls) = Inr JSNull)
          = (fst (js_call (GetBufferSize c) info calls) = Inr (Number_New (int (length bs))))"
    unfolding GetBufferSize_unfolded Display_buffer_exact [OF assms]
      expected_size_exact [OF assms]
    by (auto simp: Number_New_eq_iff)
qed

theorem GetBufferSize_is_ceil_half_width_times_height_witness:
  "0 \<le> EPD_7IN3E_WIDTH panel_800x480 \<and> 0 \<le> EPD_7IN3E_HEIGHT panel_800x480
   \<and> ceil_half_width_times_height panel_800x480 < 2 ^ 32
   \<and> js_call (GetWidth panel_800x480) [] [] = (Inr (Number_New 800), [])
   \<and> js_call (GetHeight panel_800x480) [] [] = (Inr (Number_New 480), [])
   \<and> js_call (GetBufferSize panel_800x480) [] [] = (Inr (Number_New 192000), [])
   \<and> fst (js_call (Display panel_800x480) [JSBuffer (replicate 192000 0)] []) = Inr JSNull"
proof -
  have w: "0 \<le> EPD_7IN3E_WIDTH panel_800x480" and h: "0 \<le> EPD_7IN3E_HEIGHT panel_800x480"
    by (simp_all add: panel_800x480_def)
  have s: "ceil_half_width_times_height panel_800x480 < 2 ^ 32"
    by (simp add: panel_800x480_size)
  have g: "js_call (GetWidth panel_800x480) [] [] = (Inr (Number_New 800), [])"
    "js_call (GetHeight panel_800x480) [] [] = (Inr (Number_New 480), [])"
    by (simp_all add: GetWidth_call GetHeight_call panel_800x480_def)
  show ?thesis
    using w h s g
      GetBufferSize_is_ceil_half_width_times_height
        [OF w h s, of "[]" "[]" "replicate 192000 0" "[]"]
    by (auto simp: Number_New_eq_iff)
qed

text \<open>
  Claim C9. \<^verbatim>\<open>getWidth\<close>, \<^verbatim>\<open>getHeight\<close> and \<^verbatim>\<open>getBufferSize\<close> are pure and return the
  same constant at every call: whatever calls of exported functions came before, with
  whatever arguments, each returns the value fixed by the header's macros and leaves
  the log of driver calls as it was; and each colour of \<^verbatim>\<open>Colors\<close> reads as the integer
  of its macro.
\<close>

theorem accessors_are_constant:
  "js_call (GetWidth c) info (run_calls c ops calls)
     = (Inr (Number_New (EPD_7IN3E_WIDTH c)), run_calls c ops calls)
   \<and> js_call (GetHeight c) info (run_calls c ops calls)
     = (Inr (Number_New (EPD_7IN3E_HEIGHT c)), run_calls c ops calls)
   \<and> js_call (GetBufferSize c) info (run_calls c ops calls)
     = (fst (js_call (GetBufferSize c) [] []), run_calls c ops calls)
   \<and> (\<exists>n. fst (js_call (GetBufferSize c) [] []) = Inr (Number_New n))
   \<and> map (Object_Get (CreateColorConstants c))
         [''BLACK'', ''WHITE'', ''YELLOW'', ''RED'', ''BLUE'', ''GREEN'']
     = map (Some \<circ> Number_New)
         [EPD_7IN3E_BLACK c, EPD_7IN3E_WHITE c, EPD_7IN3E_YELLOW c, EPD_7IN3E_RED c,
          EPD_7IN3E_BLUE c, EPD_7IN3E_GREEN c]"
proof (intro conjI)
  show "\<exists>n. fst (js_call (GetBufferSize c) [] []) = Inr (Number_New n)"
    unfolding GetBufferSize_unfolded by (simp del: ex_simps) blast
qed (simp_all add: GetWidth_call GetHeight_call GetBufferSize_unfolded CreateColorConstants_def
      Object_Get_def Object_Set_def)

text \<open>
  Claim C10. The exported \<^verbatim>\<open>Colors\<close> object has exactly the six keys \<^verbatim>\<open>BLACK\<close>,
  \<^verbatim>\<open>WHITE\<close>, \<^verbatim>\<open>YELLOW\<close>, \<^verbatim>\<open>RED\<close>, \<^verbatim>\<open>BLUE\<close>, \<^verbatim>\<open>GREEN\<close>, each bound to the integer
  code of the header's macro of that colour.
\<close>

theorem Colors_has_six_codes:
  "Object_Get (InitAll c exports) ''Colors'' = Some (JSObject (CreateColorConstants c))
   \<and> map fst (CreateColorConstants c)
       = [''BLACK'', ''WHITE'', ''YELLOW'', ''RED'', ''BLUE'', ''GREEN'']
   \<and> Object_Get (CreateColorConstants c) ''BLACK'' = Some (Number_New (EPD_7IN3E_BLACK c))
   \<and> Object_Get (CreateColorConstants c) ''WHITE'' = Some (Number_New (EPD_7IN3E_WHITE c))
   \<and> Object_Get (CreateColorConstants c) ''YELLOW'' = Some (Number_New (EPD_7IN3E_YELLOW c))
   \<and> Object_Get (CreateColorConstants c) ''RED'' = Some (Number_New (EPD_7IN3E_RED c))
   \<and> Object_Get (CreateColorConstants c) ''BLUE'' = Some (Number_New (EPD_7IN3E_BLUE c))
   \<and> Object_Get (CreateColorConstants c) ''GREEN'' = Some (Number_New (EPD_7IN3E_GREEN c))"
  by (simp add: InitAll_def CreateColorConstants_def Object_Get_def Object_Set_def update_conv')

subsection \<open>clear\<close>

text \<open>
  Claim C4, as the code has it. \<^verbatim>\<open>clear\<close> requires its first argument to be a number
  and checks no range. Every number is forwarded to the driver's clear routine, as the
  low byte of its conversion to \<^verbatim>\<open>uint32_t\<close>; a number from 0 to 255 is forwarded as
  its integer part, so an integer from 0 to 255 is forwarded as it is; an argument that
  is not a number is rejected with a type error and nothing is forwarded.
\<close>

theorem Clear_makes_no_range_check:
  "(\<exists>color. js_call Clear (JSNumber n # rest) calls
               = (Inr JSNull, calls @ [Call_EPD_7IN3E_Clear color])
            \<and> unat color = unat (Uint32Value (JSNumber n)) mod 256)
   \<and> (in_byte_range (Finite q) \<longrightarrow>
         js_call Clear (JSNumber (Finite q) # rest) calls
           = (Inr JSNull, calls @ [Call_EPD_7IN3E_Clear (word_of_int \<lfloor>q\<rfloor>)])
         \<and> uint (word_of_int \<lfloor>q\<rfloor> :: 8 word) = \<lfloor>q\<rfloor>)
   \<and> (0 \<le> k \<and> k \<le> 255 \<longrightarrow>
         js_call Clear (Number_New k # rest) calls
           = (Inr JSNull, calls @ [Call_EPD_7IN3E_Clear (word_of_int k)])
         \<and> uint (word_of_int k :: 8 word) = k)
   \<and> (\<not> IsNumber v \<longrightarrow>
         js_call Clear (v # rest) calls = (Inl (JSTypeError ''Expected number''), calls))"
proof (intro conjI impI)
  show "\<exists>color. js_call Clear (JSNumber n # rest) calls
               = (Inr JSNull, calls @ [Call_EPD_7IN3E_Clear color])
            \<and> unat color = unat (Uint32Value (JSNumber n)) mod 256"
    using Clear_number [of n rest calls] unat_low_byte [of "ToUint32 n"] by auto
next
  assume "in_byte_range (Finite q)"
  then have r: "0 \<le> q" "q \<le> 255" by simp_all
  then show "js_call Clear (JSNumber (Finite q) # rest) calls
           = (Inr JSNull, calls @ [Call_EPD_7IN3E_Clear (word_of_int \<lfloor>q\<rfloor>)])"
    by (simp add: Clear_number truncate_towards_zero_def low_byte_of_int)
  show "uint (word_of_int \<lfloor>q\<rfloor> :: 8 word) = \<lfloor>q\<rfloor>"
    using r by (rule byte_of_floor)
next
  assume k: "0 \<le> k \<and> k \<le> 255"
  then show "js_call Clear (Number_New k # rest) calls
           = (Inr JSNull, calls @ [Call_EPD_7IN3E_Clear (word_of_int k)])"
    by (simp add: Number_New_def Clear_number truncate_towards_zero_def low_byte_of_int)
  show "uint (word_of_int k :: 8 word) = k"
    using k by (simp add: uint_word_of_int)
next
  assume "\<not> IsNumber v"
  then show "js_call Clear (v # rest) calls = (Inl (JSTypeError ''Expected number''), calls)"
    by (rule Clear_non_number)
qed

theorem Clear_makes_no_range_check_witness:
  "in_byte_range (Finite (7 / 2))
   \<and> js_call Clear [JSNumber (Finite (7 / 2))] [] = (Inr JSNull, [Call_EPD_7IN3E_Clear 3])
   \<and> js_call Clear [Number_New 255] [] = (Inr JSNull, [Call_EPD_7IN3E_Clear 255])
   \<and> \<not> IsNumber JSUndefined
   \<and> js_call Clear [JSUndefined] [] = (Inl (JSTypeError ''Expected number''), [])"
proof -
  have f: "\<lfloor>(7 / 2) :: rat\<rfloor> = 3" by code_simp
  show ?thesis
    using Clear_makes_no_range_check [of NaN "[]" "[]" "7 / 2" 255 JSUndefined]
    by (simp add: f)
qed

text \<open>
  The claim as the specification words it fails: 256 is a number outside the range of
  a byte, and \<^verbatim>\<open>clear(256)\<close> is not rejected; it returns and forwards the colour 0.
\<close>

theorem Clear_out_of_range_counterexample:
  "\<not> in_byte_range (Finite 256)
   \<and> js_call Clear [JSNumber (Finite 256)] [] = (Inr JSNull, [Call_EPD_7IN3E_Clear 0])"
  by (simp add: Clear_number truncate_towards_zero_def)

text \<open>
  Claim C5. \<^verbatim>\<open>clear\<close> called with no argument fails with the error
  \<^verbatim>\<open>Wrong number of arguments\<close> and makes no driver call.
\<close>

theorem Clear_no_arguments:
  "js_call Clear [] calls = (Inl (JSTypeError ''Wrong number of arguments''), calls)"
  by (simp add: js_call_def Clear_def driver_defs)

text \<open>
  Claim C6. \<^verbatim>\<open>clear\<close> called with at least one argument, the first of which is not a
  number, fails with the type error \<^verbatim>\<open>Expected number\<close> and makes no driver call.
\<close>

theorem Clear_not_a_number:
  "\<not> IsNumber v \<Longrightarrow>
     js_call Clear (v # rest) calls = (Inl (JSTypeError ''Expected number''), calls)"
  by (rule Clear_non_number)

theorem Clear_not_a_number_witness:
  "\<not> IsNumber (JSString ''red'')
   \<and> js_call Clear [JSString ''red''] [] = (Inl (JSTypeError ''Expected number''), [])"
  using Clear_not_a_number [of "JSString ''red''" "[]" "[]"] by simp

text \<open>
  Claim C7. For every number passed to \<^verbatim>\<open>clear\<close>, the colour forwarded to the driver's
  clear routine is the number's unsigned 32-bit value reduced modulo 256; so
  \<^verbatim>\<open>clear(256)\<close> forwards the colour 0 and does not fail.
\<close>

theorem Clear_forwards_low_byte:
  "(\<exists>color. js_call Clear (JSNumber n # rest) calls
               = (Inr JSNull, calls @ [Call_EPD_7IN3E_Clear color])
            \<and> unat color = unat (Uint32Value (JSNumber n)) mod 256)
   \<and> js_call Clear [JSNumber (Finite 256)] calls
       = (Inr JSNull, calls @ [Call_EPD_7IN3E_Clear 0])"
proof
  show "\<exists>color. js_call Clear (JSNumber n # rest) calls
               = (Inr JSNull, calls @ [Call_EPD_7IN3E_Clear color])
            \<and> unat color = unat (Uint32Value (JSNumber n)) mod 256"
    using Clear_number [of n rest calls] unat_low_byte [of "ToUint32 n"] by auto
  show "js_call Clear [JSNumber (Finite 256)] calls
          = (Inr JSNull, calls @ [Call_EPD_7IN3E_Clear 0])"
    by (simp add: Clear_number truncate_towards_zero_def)
qed

end
